theory Spec2Isabelle
  imports Complex_Main "HOL-Library.Sublist"
begin

section \<open>Data model of \<^verbatim>\<open>src/App.tsx\<close>\<close>

text \<open>
  The TypeScript interface \<^verbatim>\<open>SelectionEvent\<close> (lines 7-12). The field \<^verbatim>\<open>text\<close> is
  written \<open>text'\<close> because \<^verbatim>\<open>text\<close> is a keyword here. \<^verbatim>\<open>selection_type\<close> is a union
  of three string literals, hence a datatype. A JavaScript \<^verbatim>\<open>number\<close> is modelled as a
  real: the only arithmetic on it is the division \<^verbatim>\<open>Date.now() / 1000\<close>, taken exactly.
\<close>

datatype SelectionType = Selected | Hovered | Focused

record SelectionEvent =
  text' :: string
  app_name :: string
  timestamp :: real
  selection_type :: SelectionType

text \<open>
  The four \<^verbatim>\<open>useState\<close> cells of the component (lines 15-18) and their initial values.
\<close>

record AppState =
  isDetecting :: bool
  hasPermissions :: bool
  selectedTexts :: "SelectionEvent list"
  status :: string

definition initial :: AppState where
  "initial = \<lparr>isDetecting = False, hasPermissions = False, selectedTexts = [], status = ''Ready''\<rparr>"

section \<open>Event listeners\<close>

text \<open>
  \<^verbatim>\<open>Array.prototype.slice(start, end)\<close> for non-negative integer arguments: the elements
  at the indices \<open>start \<le> i < end\<close> that exist.
\<close>

definition slice :: "nat \<Rightarrow> nat \<Rightarrow> 'a list \<Rightarrow> 'a list" where
  "slice start end' xs = drop start (take end' xs)"

text \<open>
  The listener on \<^verbatim>\<open>text-selection-changed\<close> (lines 25-31):
  \<^verbatim>\<open>setSelectedTexts((prev) => [event.payload, ...prev.slice(0, 9)])\<close>.
\<close>

definition on_text_selection_changed :: "SelectionEvent \<Rightarrow> AppState \<Rightarrow> AppState" where
  "on_text_selection_changed payload st =
     st\<lparr>selectedTexts := payload # slice 0 9 (selectedTexts st)\<rparr>"

text \<open>
  The listener on \<^verbatim>\<open>hotkey-selection-detected\<close> (lines 34-46). \<open>now\<close> is the value that
  \<^verbatim>\<open>Date.now()\<close> returns when the listener runs: the local clock, in milliseconds since
  the epoch.
\<close>

definition hotkey_selectionEvent :: "int \<Rightarrow> string \<Rightarrow> SelectionEvent" where
  "hotkey_selectionEvent now payload =
     \<lparr>text' = payload,
      app_name = ''Unknown (Hotkey)'',
      timestamp = of_int now / 1000,
      selection_type = Selected\<rparr>"

definition on_hotkey_selection_detected :: "int \<Rightarrow> string \<Rightarrow> AppState \<Rightarrow> AppState" where
  "on_hotkey_selection_detected now payload st =
     st\<lparr>selectedTexts := hotkey_selectionEvent now payload # slice 0 9 (selectedTexts st)\<rparr>"

section \<open>Backend calls\<close>

text \<open>
  A promise returned by \<^verbatim>\<open>invoke\<close> settles in one of two ways. The rejection reason is
  an arbitrary JavaScript value of type \<open>'e\<close>; the template literal \<^verbatim>\<open>`Error: ${error}`\<close>
  converts it with the language's string conversion, which the functions below take as
  the parameter \<open>toString\<close>. The conversion is partial: it throws a \<^verbatim>\<open>TypeError\<close> for
  a Symbol and for an object with no callable \<^verbatim>\<open>toString\<close> or \<^verbatim>\<open>valueOf\<close>, and then
  \<open>toString\<close> is \<open>None\<close>. The template literal stands in the \<^verbatim>\<open>catch\<close> block, so
  the exception is not caught: \<^verbatim>\<open>setStatus\<close> is never called, the promise of the async
  function rejects, and the state is left as the first segment made it.
\<close>

datatype ('a, 'e) settled = Resolved 'a | Rejected 'e

datatype command = check_permissions | start_text_detection | stop_text_detection

text \<open>
  Each async function runs in two synchronous segments, separated by its \<^verbatim>\<open>await\<close>:
  the part up to the \<^verbatim>\<open>invoke\<close>, and the continuation once the promise has settled.
  Other listeners may run between the two.

  \<^verbatim>\<open>checkPermissions\<close> (lines 54-63) does nothing to the state before its \<^verbatim>\<open>await\<close>.
\<close>

definition checkPermissions_begin :: "AppState \<Rightarrow> AppState" where
  "checkPermissions_begin st = st"

definition checkPermissions_settled :: "(bool, 'e) settled \<Rightarrow> AppState \<Rightarrow> AppState" where
  "checkPermissions_settled r st =
     (case r of
        Resolved permissions \<Rightarrow>
          st\<lparr>hasPermissions := permissions,
             status := (if permissions then ''Permissions granted'' else ''Permissions needed'')\<rparr>
      | Rejected error \<Rightarrow> st\<lparr>status := ''Error checking permissions''\<rparr>)"

text \<open>\<^verbatim>\<open>startDetection\<close> (lines 65-75).\<close>

definition startDetection_begin :: "AppState \<Rightarrow> AppState" where
  "startDetection_begin st = st\<lparr>status := ''Starting detection...''\<rparr>"

definition startDetection_settled ::
    "('e \<Rightarrow> string option) \<Rightarrow> (string, 'e) settled \<Rightarrow> AppState \<Rightarrow> AppState" where
  "startDetection_settled toString r st =
     (case r of
        Resolved result \<Rightarrow> st\<lparr>isDetecting := True, status := result\<rparr>
      | Rejected error \<Rightarrow>
          (case toString error of
             Some s \<Rightarrow> st\<lparr>status := ''Error: '' @ s\<rparr>
           | None \<Rightarrow> st))"

text \<open>\<^verbatim>\<open>stopDetection\<close> (lines 77-87).\<close>

definition stopDetection_begin :: "AppState \<Rightarrow> AppState" where
  "stopDetection_begin st = st\<lparr>status := ''Stopping detection...''\<rparr>"

definition stopDetection_settled ::
    "('e \<Rightarrow> string option) \<Rightarrow> (string, 'e) settled \<Rightarrow> AppState \<Rightarrow> AppState" where
  "stopDetection_settled toString r st =
     (case r of
        Resolved result \<Rightarrow> st\<lparr>isDetecting := False, status := result\<rparr>
      | Rejected error \<Rightarrow>
          (case toString error of
             Some s \<Rightarrow> st\<lparr>status := ''Error: '' @ s\<rparr>
           | None \<Rightarrow> st))"

text \<open>A whole call with nothing running in between: both segments in a row.\<close>

definition checkPermissions :: "(bool, 'e) settled \<Rightarrow> AppState \<Rightarrow> AppState" where
  "checkPermissions r st = checkPermissions_settled r (checkPermissions_begin st)"

definition startDetection ::
    "('e \<Rightarrow> string option) \<Rightarrow> (string, 'e) settled \<Rightarrow> AppState \<Rightarrow> AppState" where
  "startDetection toString r st = startDetection_settled toString r (startDetection_begin st)"

definition stopDetection ::
    "('e \<Rightarrow> string option) \<Rightarrow> (string, 'e) settled \<Rightarrow> AppState \<Rightarrow> AppState" where
  "stopDetection toString r st = stopDetection_settled toString r (stopDetection_begin st)"

section \<open>Rendered controls\<close>

text \<open>
  The buttons of the control panel (lines 115-137). A button carries the handler of its
  \<^verbatim>\<open>onClick\<close>, its \<^verbatim>\<open>disabled\<close> attribute (absent means \<open>False\<close>) and its label.
\<close>

datatype handler = CheckPermissions | StartDetection | StopDetection

record button =
  onClick :: handler
  disabled :: bool
  label :: string

definition refresh_button :: button where
  "refresh_button = \<lparr>onClick = CheckPermissions, disabled = False, label = ''Refresh''\<rparr>"

definition start_button :: "AppState \<Rightarrow> button" where
  "start_button st =
     \<lparr>onClick = StartDetection, disabled = (\<not> hasPermissions st),
      label = ''Start Text Detection''\<rparr>"

definition stop_button :: button where
  "stop_button = \<lparr>onClick = StopDetection, disabled = False, label = ''Stop Text Detection''\<rparr>"

text \<open>The ternary of lines 124-136: exactly one of the two buttons is rendered.\<close>

definition controls :: "AppState \<Rightarrow> button" where
  "controls st = (if \<not> isDetecting st then start_button st else stop_button)"

text \<open>
  A click on a button. A disabled button dispatches no click event; an enabled one runs
  its handler up to the \<^verbatim>\<open>await\<close>, which issues the backend command.
\<close>

fun handler_begin :: "handler \<Rightarrow> AppState \<Rightarrow> AppState \<times> command" where
  "handler_begin CheckPermissions st = (checkPermissions_begin st, check_permissions)"
| "handler_begin StartDetection st = (startDetection_begin st, start_text_detection)"
| "handler_begin StopDetection st = (stopDetection_begin st, stop_text_detection)"

definition click :: "button \<Rightarrow> AppState \<Rightarrow> AppState \<times> command option" where
  "click b st =
     (if disabled b then (st, None)
      else (fst (handler_begin (onClick b) st), Some (snd (handler_begin (onClick b) st))))"

section \<open>The event loop\<close>

text \<open>
  Everything that can run on the single UI thread after the component has mounted: the
  two listeners, a click on one of the two button slots, and the continuation of a
  backend call. Any order of these is allowed here, which covers every order in which
  the backend can deliver events and settle calls.
\<close>

datatype slot = RefreshSlot | ControlsSlot

fun rendered :: "slot \<Rightarrow> AppState \<Rightarrow> button" where
  "rendered RefreshSlot st = refresh_button"
| "rendered ControlsSlot st = controls st"

datatype 'e action =
    TextSelectionChanged SelectionEvent
  | HotkeySelectionDetected int string
  | Click slot
  | CheckPermissionsSettled "(bool, 'e) settled"
  | StartDetectionSettled "(string, 'e) settled"
  | StopDetectionSettled "(string, 'e) settled"

fun step :: "('e \<Rightarrow> string option) \<Rightarrow> 'e action \<Rightarrow> AppState \<Rightarrow> AppState" where
  "step toString (TextSelectionChanged payload) st = on_text_selection_changed payload st"
| "step toString (HotkeySelectionDetected now payload) st =
     on_hotkey_selection_detected now payload st"
| "step toString (Click s) st = fst (click (rendered s st) st)"
| "step toString (CheckPermissionsSettled r) st = checkPermissions_settled r st"
| "step toString (StartDetectionSettled r) st = startDetection_settled toString r st"
| "step toString (StopDetectionSettled r) st = stopDetection_settled toString r st"

fun run :: "('e \<Rightarrow> string option) \<Rightarrow> 'e action list \<Rightarrow> AppState \<Rightarrow> AppState" where
  "run toString [] st = st"
| "run toString (a # as) st = run toString as (step toString a st)"

text \<open>
  The events that a trace delivers on the two channels, in the order of their arrival,
  each as the listener folds it into the list.
\<close>

fun arrivals :: "'e action list \<Rightarrow> SelectionEvent list" where
  "arrivals [] = []"
| "arrivals (TextSelectionChanged payload # as) = payload # arrivals as"
| "arrivals (HotkeySelectionDetected now payload # as) =
     hotkey_selectionEvent now payload # arrivals as"
| "arrivals (_ # as) = arrivals as"

definition received :: "'e action list \<Rightarrow> nat" where
  "received as = length (arrivals as)"


section \<open>Properties of the listeners\<close>

lemma slice_0: "slice 0 n xs = take n xs"
  by (simp add: slice_def)

lemma take_prepend_bounded:
  "take 10 (xs @ e # take 9 ys) = take 10 (xs @ e # ys)"
proof (cases "length xs < 10")
  case True
  then obtain k where k: "10 - length xs = Suc k"
    by (cases "10 - length xs") auto
  then have "min k 9 = k" by arith
  with k show ?thesis by simp
next
  case False
  then show ?thesis by simp
qed

lemma step_selectedTexts:
  "selectedTexts (step toString a st) =
     (case arrivals [a] of [] \<Rightarrow> selectedTexts st | e # _ \<Rightarrow> e # take 9 (selectedTexts st))"
proof (cases a)
  case (Click s)
  then show ?thesis
    by (cases "onClick (rendered s st)")
       (simp_all add: click_def checkPermissions_begin_def startDetection_begin_def
          stopDetection_begin_def)
next
  case (CheckPermissionsSettled r)
  then show ?thesis by (cases r) (simp_all add: checkPermissions_settled_def)
next
  case (StartDetectionSettled r)
  then show ?thesis
    by (cases r) (simp_all add: startDetection_settled_def split: option.split)
next
  case (StopDetectionSettled r)
  then show ?thesis
    by (cases r) (simp_all add: stopDetection_settled_def split: option.split)
qed (simp_all add: on_text_selection_changed_def on_hotkey_selection_detected_def slice_0)

lemma arrivals_Cons: "arrivals (a # as) = arrivals [a] @ arrivals as"
  by (cases a) simp_all

lemma run_selectedTexts:
  "selectedTexts (run toString as st) =
     (if arrivals as = [] then selectedTexts st
      else take 10 (rev (arrivals as) @ selectedTexts st))"
proof (induction as arbitrary: st)
  case Nil
  show ?case by simp
next
  case (Cons a as)
  show ?case
  proof (cases "arrivals [a]")
    case Nil
    then have "arrivals (a # as) = arrivals as"
      using arrivals_Cons [of a as] by simp
    moreover from Nil have "selectedTexts (step toString a st) = selectedTexts st"
      by (simp add: step_selectedTexts)
    ultimately show ?thesis
      using Cons.IH [of "step toString a st"] by simp
  next
    case (Cons e es)
    have es: "es = []"
      using Cons by (cases a) simp_all
    with Cons have arr: "arrivals (a # as) = e # arrivals as"
      using arrivals_Cons [of a as] by simp
    from Cons have st': "selectedTexts (step toString a st) = e # take 9 (selectedTexts st)"
      by (simp add: step_selectedTexts)
    show ?thesis
    proof (cases "arrivals as = []")
      case True
      with arr st' Cons.IH [of "step toString a st"] show ?thesis
        by simp
    next
      case False
      with arr st' Cons.IH [of "step toString a st"] show ?thesis
        using take_prepend_bounded [of "rev (arrivals as)" e "selectedTexts st"] by simp
    qed
  qed
qed

text \<open>
  C1. Whatever happens on the UI thread, in whatever order (events on either channel,
  clicks, settled calls), the displayed list holds at most 10 events, and exactly
  \<open>min 10 n\<close> of them when \<open>n\<close> events have been received since startup. The statement
  is about every trace, hence about every prefix of a trace: it holds after each arrival.
\<close>

theorem displayed_length_min_10_received:
  "length (selectedTexts (run toString as initial)) = min 10 (received as)
   \<and> length (selectedTexts (run toString as initial)) \<le> 10"
  by (simp add: run_selectedTexts received_def initial_def min.commute)

text \<open>
  C3. An event on the hotkey channel carries only a string. The event that the listener
  prepends has that string as its text, the fixed label \<^verbatim>\<open>Unknown (Hotkey)\<close> as its
  application name, the kind \<open>Selected\<close>, and as its timestamp the local clock at
  receipt, converted from milliseconds to seconds.
\<close>

theorem hotkey_event_synthesized:
  "selectedTexts (on_hotkey_selection_detected now payload st) =
     \<lparr>text' = payload, app_name = ''Unknown (Hotkey)'', timestamp = of_int now / 1000,
      selection_type = Selected\<rparr> # take 9 (selectedTexts st)"
  by (simp add: on_hotkey_selection_detected_def hotkey_selectionEvent_def slice_0)

text \<open>
  C4. Eleven structured events \<open>e1\<close>, ..., \<open>e11\<close> arriving in this order on an empty
  list leave the ten events \<open>e11\<close>, ..., \<open>e2\<close> displayed, newest first; \<open>e1\<close> is gone.
\<close>

theorem eleven_structured_events:
  "selectedTexts
     (run toString
        (map TextSelectionChanged [e1, e2, e3, e4, e5, e6, e7, e8, e9, e10, e11])
        (st\<lparr>selectedTexts := []\<rparr>)) =
   [e11, e10, e9, e8, e7, e6, e5, e4, e3, e2]"
  by (simp add: on_text_selection_changed_def slice_0)

text \<open>
  An example of arrival order against embedded timestamps: the event that arrives last
  is displayed first although its timestamp is the older one.
\<close>

lemma arrival_order_not_timestamp_order:
  "map timestamp
     (selectedTexts
        (run toString
           [TextSelectionChanged
              \<lparr>text' = ''a'', app_name = ''A'', timestamp = 20, selection_type = Hovered\<rparr>,
            HotkeySelectionDetected 5000 ''b'']
           initial)) = [5, 20]"
  by (simp add: on_text_selection_changed_def on_hotkey_selection_detected_def
        hotkey_selectionEvent_def slice_0 initial_def)

text \<open>
  C5. Each listener prepends the event it receives, so after any trace the displayed list
  is the sequence of arrivals reversed (newest first) and cut to ten. Nothing in it
  depends on the timestamps the events carry.
\<close>

theorem displayed_newest_first:
  "selectedTexts (run toString as initial) = take 10 (rev (arrivals as))
   \<and> selectedTexts (step toString (TextSelectionChanged payload) st) =
       payload # take 9 (selectedTexts st)
   \<and> selectedTexts (step toString (HotkeySelectionDetected now p) st) =
       hotkey_selectionEvent now p # take 9 (selectedTexts st)"
  by (simp add: run_selectedTexts initial_def on_text_selection_changed_def
        on_hotkey_selection_detected_def slice_0)

text \<open>
  C9. Both listeners change the list of selections and nothing else: the detection flag,
  the permission flag and the status line are as before.
\<close>

theorem ingestion_frame:
  "on_text_selection_changed payload st =
     st\<lparr>selectedTexts := selectedTexts (on_text_selection_changed payload st)\<rparr>
   \<and> on_hotkey_selection_detected now p st =
     st\<lparr>selectedTexts := selectedTexts (on_hotkey_selection_detected now p st)\<rparr>
   \<and> isDetecting (on_text_selection_changed payload st) = isDetecting st
   \<and> hasPermissions (on_text_selection_changed payload st) = hasPermissions st
   \<and> status (on_text_selection_changed payload st) = status st
   \<and> isDetecting (on_hotkey_selection_detected now p st) = isDetecting st
   \<and> hasPermissions (on_hotkey_selection_detected now p st) = hasPermissions st
   \<and> status (on_hotkey_selection_detected now p st) = status st"
  by (simp add: on_text_selection_changed_def on_hotkey_selection_detected_def)

section \<open>Properties of the backend calls\<close>


lemma startDetection_Rejected:
  "startDetection toString (Rejected error) st =
     (case toString error of
        Some s \<Rightarrow> st\<lparr>status := ''Error: '' @ s\<rparr>
      | None \<Rightarrow> st\<lparr>status := ''Starting detection...''\<rparr>)"
  by (simp add: startDetection_def startDetection_begin_def startDetection_settled_def
        split: option.split)

lemma stopDetection_Rejected:
  "stopDetection toString (Rejected error) st =
     (case toString error of
        Some s \<Rightarrow> st\<lparr>status := ''Error: '' @ s\<rparr>
      | None \<Rightarrow> st\<lparr>status := ''Stopping detection...''\<rparr>)"
  by (simp add: stopDetection_def stopDetection_begin_def stopDetection_settled_def
        split: option.split)

text \<open>
  The path on which the string conversion throws: the status line keeps the text that the
  first segment wrote.
\<close>

lemma rejected_conversion_throws:
  "toString error = None \<Longrightarrow>
     status (startDetection toString (Rejected error) st) = ''Starting detection...''
     \<and> status (stopDetection toString (Rejected error) st) = ''Stopping detection...''"
  by (simp add: startDetection_Rejected stopDetection_Rejected)

lemma checkPermissions_Rejected:
  "checkPermissions (Rejected error) st = st\<lparr>status := ''Error checking permissions''\<rparr>"
  by (simp add: checkPermissions_def checkPermissions_begin_def checkPermissions_settled_def)

lemma checkPermissions_Resolved:
  "checkPermissions (Resolved permissions) st =
     st\<lparr>hasPermissions := permissions,
        status := (if permissions then ''Permissions granted'' else ''Permissions needed'')\<rparr>"
  by (simp add: checkPermissions_def checkPermissions_begin_def checkPermissions_settled_def)




text \<open>
  C6. When \<^verbatim>\<open>start_text_detection\<close> resolves, the detection flag is set, the controls
  slot renders the stop button (and so not the start button), and the status line is the
  returned string. When \<^verbatim>\<open>stop_text_detection\<close> resolves, the flag is cleared, the slot
  renders the start button, and the status line is the returned string. The last two
  conjuncts give the continuation alone, for a call that other listeners interleave with.
\<close>

theorem start_stop_resolved:
  "isDetecting (startDetection toString (Resolved result) st) = True
   \<and> controls (startDetection toString (Resolved result) st) = stop_button
   \<and> status (startDetection toString (Resolved result) st) = result
   \<and> isDetecting (stopDetection toString (Resolved result) st) = False
   \<and> controls (stopDetection toString (Resolved result) st) =
       start_button (stopDetection toString (Resolved result) st)
   \<and> status (stopDetection toString (Resolved result) st) = result
   \<and> startDetection_settled toString (Resolved result) st =
       st\<lparr>isDetecting := True, status := result\<rparr>
   \<and> stopDetection_settled toString (Resolved result) st =
       st\<lparr>isDetecting := False, status := result\<rparr>"
  by (simp add: startDetection_def startDetection_begin_def
        startDetection_settled_def stopDetection_def stopDetection_begin_def
        stopDetection_settled_def controls_def)

text \<open>
  C7. When \<^verbatim>\<open>check_permissions\<close> rejects, the status line is the generic string
  \<^verbatim>\<open>Error checking permissions\<close> and the permission flag keeps its value.
\<close>

theorem checkPermissions_rejected_generic:
  "status (checkPermissions (Rejected error) st) = ''Error checking permissions''
   \<and> hasPermissions (checkPermissions (Rejected error) st) = hasPermissions st"
  by (simp add: checkPermissions_Rejected)

text \<open>
  C8. When \<^verbatim>\<open>check_permissions\<close> resolves to true, the permission flag is set and the
  start button is enabled: where it is rendered (detection not running), a click on it
  runs \<^verbatim>\<open>startDetection\<close>. When it resolves to false, the flag is cleared, the status
  line reads \<^verbatim>\<open>Permissions needed\<close>, and the start button is disabled: a click on it
  changes nothing and issues no command.
\<close>

theorem checkPermissions_resolved_gates_start:
  "hasPermissions (checkPermissions (Resolved True) st) = True
   \<and> \<not> disabled (start_button (checkPermissions (Resolved True) st))
   \<and> (\<not> isDetecting st \<longrightarrow>
        controls (checkPermissions (Resolved True) st) =
          start_button (checkPermissions (Resolved True) st)
        \<and> click (controls (checkPermissions (Resolved True) st)) s =
            (startDetection_begin s, Some start_text_detection))
   \<and> hasPermissions (checkPermissions (Resolved False) st) = False
   \<and> status (checkPermissions (Resolved False) st) = ''Permissions needed''
   \<and> disabled (start_button (checkPermissions (Resolved False) st))
   \<and> click (start_button (checkPermissions (Resolved False) st)) s = (s, None)
   \<and> (\<not> isDetecting st \<longrightarrow>
        controls (checkPermissions (Resolved False) st) =
          start_button (checkPermissions (Resolved False) st))"
  by (simp add: checkPermissions_Resolved start_button_def controls_def click_def)

theorem checkPermissions_resolved_gates_start_witness:
  "\<not> isDetecting initial
   \<and> click (controls (checkPermissions (Resolved True :: (bool, string) settled) initial))
        (checkPermissions (Resolved True :: (bool, string) settled) initial) =
       (\<lparr>isDetecting = False, hasPermissions = True, selectedTexts = [],
         status = ''Starting detection...''\<rparr>, Some start_text_detection)
   \<and> click (controls (checkPermissions (Resolved False :: (bool, string) settled) initial))
        (checkPermissions (Resolved False :: (bool, string) settled) initial) =
       (\<lparr>isDetecting = False, hasPermissions = False, selectedTexts = [],
         status = ''Permissions needed''\<rparr>, None)"
proof -
  let ?t = "checkPermissions (Resolved True :: (bool, string) settled) initial"
  let ?f = "checkPermissions (Resolved False :: (bool, string) settled) initial"
  have h: "\<not> isDetecting initial"
    by (simp add: initial_def)
  from checkPermissions_resolved_gates_start [of initial ?t] h
  have a: "click (controls ?t) ?t = (startDetection_begin ?t, Some start_text_detection)"
    by blast
  from checkPermissions_resolved_gates_start [of initial ?f] h
  have "click (start_button ?f) ?f = (?f, None)" and "controls ?f = start_button ?f"
    by blast+
  then have b: "click (controls ?f) ?f = (?f, None)"
    by simp
  have c: "startDetection_begin ?t =
             \<lparr>isDetecting = False, hasPermissions = True, selectedTexts = [],
              status = ''Starting detection...''\<rparr>"
    and d: "?f = \<lparr>isDetecting = False, hasPermissions = False, selectedTexts = [],
                  status = ''Permissions needed''\<rparr>"
    by (simp_all add: initial_def checkPermissions_Resolved startDetection_begin_def)
  from h a b c d show ?thesis
    by simp
qed

section \<open>Properties of the rendered controls\<close>

text \<open>
  C10. The stop button is never disabled: whenever detection is flagged as running, the
  controls slot renders it and a click runs \<^verbatim>\<open>stopDetection\<close>, whatever the permission
  flag. The start button, rendered otherwise, is disabled exactly when the permission flag
  is clear, and then a click does nothing.
\<close>

theorem stop_control_never_disabled:
  "\<not> disabled stop_button
   \<and> (isDetecting st \<longrightarrow>
        controls st = stop_button
        \<and> click (controls st) st = (stopDetection_begin st, Some stop_text_detection))
   \<and> (\<not> isDetecting st \<longrightarrow>
        controls st = start_button st
        \<and> disabled (controls st) = (\<not> hasPermissions st)
        \<and> click (controls st) st =
            (if hasPermissions st then (startDetection_begin st, Some start_text_detection)
             else (st, None)))"
  by (simp add: controls_def start_button_def stop_button_def click_def)

theorem stop_control_never_disabled_witness:
  "isDetecting (initial\<lparr>isDetecting := True\<rparr>)
   \<and> \<not> hasPermissions (initial\<lparr>isDetecting := True\<rparr>)
   \<and> click (controls (initial\<lparr>isDetecting := True\<rparr>)) (initial\<lparr>isDetecting := True\<rparr>) =
       (\<lparr>isDetecting = True, hasPermissions = False, selectedTexts = [],
         status = ''Stopping detection...''\<rparr>, Some stop_text_detection)
   \<and> \<not> isDetecting initial
   \<and> click (controls initial) initial = (initial, None)"
proof -
  let ?s = "initial\<lparr>isDetecting := True\<rparr>"
  have h1: "isDetecting ?s" and h2: "\<not> isDetecting initial"
    and p1: "\<not> hasPermissions ?s" and p2: "\<not> hasPermissions initial"
    by (simp_all add: initial_def)
  from stop_control_never_disabled [of ?s] h1
  have a: "click (controls ?s) ?s = (stopDetection_begin ?s, Some stop_text_detection)"
    by blast
  from stop_control_never_disabled [of initial] h2
  have "click (controls initial) initial =
          (if hasPermissions initial
           then (startDetection_begin initial, Some start_text_detection)
           else (initial, None))"
    by blast
  with p2 have b: "click (controls initial) initial = (initial, None)"
    by simp
  have c: "stopDetection_begin ?s =
             \<lparr>isDetecting = True, hasPermissions = False, selectedTexts = [],
              status = ''Stopping detection...''\<rparr>"
    by (simp add: initial_def stopDetection_begin_def)
  from h1 h2 p1 a b c show ?thesis
    by simp
qed

end
